theory Spec2Isabelle
  imports Complex_Main
begin

section \<open>Data model\<close>

text \<open>
  The strategy \<^verbatim>\<open>MovingAverageCross\<close> of \<^verbatim>\<open>streamlit_app.py\<close> reads two lines of the data
  feed: \<^verbatim>\<open>self.data.datetime.date(0)\<close> and \<^verbatim>\<open>self.data.close[0]\<close>. A bar carries these
  two. Dates are day numbers; prices are Python floats, taken here as exact rationals.
\<close>

type_synonym date = nat

record bar =
  date :: date
  close :: rat

text \<open>
  A message is the f-string \<^verbatim>\<open>f"BUY on {current_date} at {current_close}"\<close> (or
  \<^verbatim>\<open>SELL\<close>), kept as its three parts.
\<close>

datatype action = BUY | SELL

datatype message = Message (verb: action) (on_date: date) (at_price: rat)

text \<open>
  \<^verbatim>\<open>st.session_state\<close> outlives a run of the script: it holds the key \<^verbatim>\<open>messages\<close> or
  not (\<open>None\<close>).
\<close>

type_synonym session_state = "message list option"

definition messages :: "session_state \<Rightarrow> message list" where
  "messages ss = (case ss of None \<Rightarrow> [] | Some ms \<Rightarrow> ms)"

section \<open>The moving average indicator\<close>

text \<open>
  Modelled from the spec: \<^verbatim>\<open>bt.indicators.SimpleMovingAverage\<close> is code of the
  backtrader library and is not part of the source. The spec's MovingAverage (4.1)
  keeps the most recent \<open>period\<close> closes, the oldest evicted on overflow; its value is
  the arithmetic mean of the window, undefined until the window holds exactly
  \<open>period\<close> elements.
\<close>

record moving_average =
  period :: nat
  window :: "rat list"

definition SimpleMovingAverage :: "nat \<Rightarrow> moving_average" where
  "SimpleMovingAverage p = \<lparr>period = p, window = []\<rparr>"

definition update :: "rat \<Rightarrow> moving_average \<Rightarrow> moving_average" where
  "update c m =
     m\<lparr>window := (if length (window m) < period m then window m @ [c]
                  else tl (window m @ [c]))\<rparr>"

definition current :: "moving_average \<Rightarrow> rat option" where
  "current m =
     (if length (window m) = period m
      then Some (sum_list (window m) / of_nat (period m)) else None)"

text \<open>
  The arithmetic mean of the last \<open>p\<close> of the closes \<open>xs\<close> fed so far, undefined while
  fewer than \<open>p\<close> were fed (spec, section 8).
\<close>

definition sma :: "nat \<Rightarrow> rat list \<Rightarrow> rat option" where
  "sma p xs =
     (if length xs < p then None
      else Some (sum_list (drop (length xs - p) xs) / of_nat p))"

text \<open>
  Python compares floats; an undefined average is NaN, and every comparison with NaN is
  false.
\<close>

fun float_gt :: "rat option \<Rightarrow> rat option \<Rightarrow> bool" where
  "float_gt (Some x) (Some y) = (x > y)"
| "float_gt _ _ = False"

fun float_lt :: "rat option \<Rightarrow> rat option \<Rightarrow> bool" where
  "float_lt (Some x) (Some y) = (x < y)"
| "float_lt _ _ = False"

section \<open>The strategy\<close>

text \<open>
  \<^verbatim>\<open>self.buy()\<close> and \<^verbatim>\<open>self.sell()\<close> submit a market order of the default size 1 to the
  broker. \<^verbatim>\<open>self.position\<close> is the broker's position in the data; it is true when its
  size is not 0.
\<close>

datatype order = Buy | Sell

record strategy =
  ma_short :: moving_average
  ma_long :: moving_average
  position :: int
  pending :: "order option"

text \<open>\<^verbatim>\<open>MovingAverageCross.__init__\<close>, with the broker's empty position and order queue.\<close>

definition init :: strategy where
  "init = \<lparr>ma_short = SimpleMovingAverage 15, ma_long = SimpleMovingAverage 30,
           position = 0, pending = None\<rparr>"

text \<open>
  \<^verbatim>\<open>MovingAverageCross.next\<close>: the order submitted at this bar, if any, and the session
  state it leaves.
\<close>

definition next_bar :: "bar \<Rightarrow> strategy \<Rightarrow> session_state \<Rightarrow> order option \<times> session_state" where
  "next_bar b s ss =
     (let current_date = date b;
          current_close = close b;
          ms = (case ss of None \<Rightarrow> [] | Some ms \<Rightarrow> ms)
      in if float_gt (current (ma_short s)) (current (ma_long s)) then
           if \<not> (position s \<noteq> 0)
           then (Some Buy, Some (ms @ [Message BUY current_date current_close]))
           else (None, Some ms)
         else if float_lt (current (ma_short s)) (current (ma_long s)) then
           if position s \<noteq> 0
           then (Some Sell, Some (ms @ [Message SELL current_date current_close]))
           else (None, Some ms)
         else (None, Some ms))"

section \<open>The run of the engine\<close>

text \<open>
  \<^verbatim>\<open>cerebro.run()\<close> is backtrader's loop over the bars of the feed, in the order of the
  file. At each bar it first lets the broker execute the market order submitted at the
  bar before (backtrader's default broker fills a market order at the next bar), then
  advances the indicators, and calls \<^verbatim>\<open>next\<close> once every indicator has a value; before
  that it calls \<^verbatim>\<open>prenext\<close>, which the strategy does not override. The broker is taken to
  accept every order: its default cash covers one unit of a share.
\<close>

definition broker_next :: "strategy \<Rightarrow> strategy" where
  "broker_next s =
     (case pending s of
        None \<Rightarrow> s
      | Some Buy \<Rightarrow> s\<lparr>position := position s + 1, pending := None\<rparr>
      | Some Sell \<Rightarrow> s\<lparr>position := position s - 1, pending := None\<rparr>)"

definition advance :: "bar \<Rightarrow> strategy \<Rightarrow> strategy" where
  "advance b s =
     s\<lparr>ma_short := update (close b) (ma_short s), ma_long := update (close b) (ma_long s)\<rparr>"

definition on_bar :: "bar \<Rightarrow> strategy \<times> session_state \<Rightarrow> strategy \<times> session_state" where
  "on_bar b = (\<lambda>(s, ss).
     let s1 = advance b (broker_next s)
     in if current (ma_short s1) \<noteq> None \<and> current (ma_long s1) \<noteq> None
        then (case next_bar b s1 ss of (ord, ss') \<Rightarrow> (s1\<lparr>pending := ord\<rparr>, ss'))
        else (s1, ss))"

definition run :: "bar list \<Rightarrow> session_state \<Rightarrow> strategy \<times> session_state" where
  "run bars ss = fold on_bar bars (init, ss)"

text \<open>The entries a run appends to the session's message list.\<close>

definition signal_log :: "bar list \<Rightarrow> session_state \<Rightarrow> message list" where
  "signal_log bars ss = drop (length (messages ss)) (messages (snd (run bars ss)))"




text \<open>
  One click on the button \<^verbatim>\<open>Get Trading Strategy\<close>: the script warns when the fetched data
  is empty, and otherwise runs the engine and writes every message of the session state
  under the header \<^verbatim>\<open>Trade Signals\<close>. The result is the session state left behind and
  the lines written.
\<close>

definition trade_signals :: "bar list \<Rightarrow> session_state \<Rightarrow> session_state \<times> message list" where
  "trade_signals stock_data ss =
     (if stock_data = [] then (ss, [])
      else (case run stock_data ss of (s, ss') \<Rightarrow>
              (ss', case ss' of None \<Rightarrow> [] | Some ms \<Rightarrow> ms)))"

section \<open>The crossover detector of the spec\<close>

text \<open>
  The source has no crossover detector. These definitions follow the words of the spec
  (4.2), to be compared with what the source does: the relation of a bar is UNDEFINED if
  either average is undefined, ABOVE or BELOW as the short average is above or below the
  long one, and on exact equality it keeps the relation of the bar before. A transition
  is a flip between ABOVE and BELOW from one bar to the next.
\<close>

datatype relation = ABOVE | BELOW | UNDEFINED

fun spec_observe :: "rat option \<Rightarrow> rat option \<Rightarrow> relation \<Rightarrow> relation" where
  "spec_observe (Some short_val) (Some long_val) prior =
     (if short_val > long_val then ABOVE
      else if short_val < long_val then BELOW
      else prior)"
| "spec_observe _ _ prior = UNDEFINED"

definition short_value :: "bar list \<Rightarrow> rat option" where
  "short_value bars = sma 15 (map close bars)"

definition long_value :: "bar list \<Rightarrow> rat option" where
  "long_value bars = sma 30 (map close bars)"

fun spec_relation_rev :: "bar list \<Rightarrow> relation" where
  "spec_relation_rev [] = UNDEFINED"
| "spec_relation_rev (b # earlier) =
     spec_observe (short_value (rev (b # earlier))) (long_value (rev (b # earlier)))
       (spec_relation_rev earlier)"

text \<open>The relation at the last bar of \<open>bars\<close>.\<close>

definition spec_relation :: "bar list \<Rightarrow> relation" where
  "spec_relation bars = spec_relation_rev (rev bars)"




section \<open>Price series used as concrete inputs\<close>

text \<open>Closes \<open>c + 1\<close>, \<open>c + 2\<close>, ..., \<open>c + n\<close> on the days 1, 2, ..., \<open>n\<close>.\<close>

definition rising :: "rat \<Rightarrow> nat \<Rightarrow> bar list" where
  "rising c n = map (\<lambda>i. \<lparr>date = i, close = c + of_nat i\<rparr>) [1..<Suc n]"

text \<open>Closes \<open>c - 1\<close>, \<open>c - 2\<close>, ..., \<open>c - n\<close> on the days \<open>d + 1\<close>, ..., \<open>d + n\<close>.\<close>

definition falling :: "rat \<Rightarrow> nat \<Rightarrow> nat \<Rightarrow> bar list" where
  "falling c d n = map (\<lambda>i. \<lparr>date = d + i, close = c - of_nat i\<rparr>) [1..<Suc n]"






section \<open>Lemmas\<close>

subsection \<open>The moving average\<close>

lemma period_update [simp]: "period (update c m) = period m"
  by (simp add: update_def)

lemma window_fold_update:
  "length (window m) \<le> period m \<Longrightarrow>
   window (fold update xs m) = drop (length (window m) + length xs - period m) (window m @ xs)
   \<and> period (fold update xs m) = period m"
proof (induction xs arbitrary: m)
  case Nil
  then show ?case by simp
next
  case (Cons c xs)
  let ?m = "update c m"
  have b: "length (window ?m) \<le> period ?m"
    using Cons.prems by (simp add: update_def)
  have "drop (length (window ?m) + length xs - period ?m) (window ?m @ xs)
        = drop (length (window m) + length (c # xs) - period m) (window m @ c # xs)"
  proof (cases "length (window m) < period m")
    case True
    then show ?thesis by (simp add: update_def)
  next
    case False
    with Cons.prems have e: "length (window m) = period m" by simp
    show ?thesis
    proof (cases "window m")
      case Nil
      with e show ?thesis by (simp add: update_def)
    next
      case (Cons a w)
      with e show ?thesis by (simp add: update_def)
    qed
  qed
  with Cons.IH [OF b] show ?case by simp
qed

lemma current_fold_update:
  "1 \<le> p \<Longrightarrow> current (fold update xs (SimpleMovingAverage p)) = sma p xs"
  using window_fold_update [of "SimpleMovingAverage p" xs]
  by (auto simp: current_def sma_def SimpleMovingAverage_def)

subsection \<open>The averages along a run\<close>


lemma on_bar_ma:
  "ma_short (fst (on_bar b (s, ss))) = update (close b) (ma_short s)"
  "ma_long (fst (on_bar b (s, ss))) = update (close b) (ma_long s)"
  by (simp_all add: on_bar_def Let_def advance_def broker_next_def
      split: prod.splits option.splits order.splits)

lemma fold_on_bar_ma:
  "ma_short (fst (fold on_bar bars (s, ss))) = fold update (map close bars) (ma_short s)
   \<and> ma_long (fst (fold on_bar bars (s, ss))) = fold update (map close bars) (ma_long s)"
proof (induction bars arbitrary: s ss)
  case Nil
  show ?case by simp
next
  case (Cons b bars)
  obtain s' ss' where o: "on_bar b (s, ss) = (s', ss')" by (cases "on_bar b (s, ss)")
  from on_bar_ma [of b s ss] o
  have "ma_short s' = update (close b) (ma_short s)" "ma_long s' = update (close b) (ma_long s)"
    by simp_all
  with Cons.IH [of s' ss'] o show ?case by simp
qed

lemma run_values:
  "current (ma_short (fst (run bars ss))) = short_value bars"
  "current (ma_long (fst (run bars ss))) = long_value bars"
  using fold_on_bar_ma [of bars init ss]
  by (simp_all add: run_def init_def current_fold_update short_value_def long_value_def)




subsection \<open>A run reads the session state only to append to it\<close>

lemma on_bar_session:
  "fst (on_bar b (s, ss)) = fst (on_bar b (s, None))
   \<and> messages (snd (on_bar b (s, ss))) = messages ss @ messages (snd (on_bar b (s, None)))"
  by (simp add: on_bar_def next_bar_def Let_def messages_def split: option.splits)

lemma fold_on_bar_session:
  "fst (fold on_bar bars (s, ss)) = fst (fold on_bar bars (s, None))
   \<and> messages (snd (fold on_bar bars (s, ss)))
       = messages ss @ messages (snd (fold on_bar bars (s, None)))"
proof (induction bars arbitrary: s ss)
  case Nil
  show ?case by (simp add: messages_def)
next
  case (Cons b bars)
  obtain s' ss' where o: "on_bar b (s, ss) = (s', ss')" by (cases "on_bar b (s, ss)")
  obtain s0 ss0 where o0: "on_bar b (s, None) = (s0, ss0)" by (cases "on_bar b (s, None)")
  from on_bar_session [of b s ss] o o0
  have e: "s' = s0" "messages ss' = messages ss @ messages ss0" by simp_all
  from Cons.IH [of s0 ss'] Cons.IH [of s0 ss0] e o o0 show ?case by simp
qed

lemma run_session:
  "fst (run bars ss) = fst (run bars None)"
  "messages (snd (run bars ss)) = messages ss @ signal_log bars None"
  using fold_on_bar_session [of bars init ss]
  by (simp_all add: run_def signal_log_def messages_def)

lemma signal_log_session: "signal_log bars ss = signal_log bars None"
  by (simp add: signal_log_def [of bars ss] run_session)

lemma signal_log_Nil [simp]: "signal_log [] ss = []"
  by (simp add: signal_log_def run_def)

lemma trade_signals_run:
  "trade_signals bars ss =
     (if bars = [] then (ss, []) else (snd (run bars ss), messages (snd (run bars ss))))"
  by (simp add: trade_signals_def messages_def split: prod.splits)

lemma trade_signals_snd:
  "snd (trade_signals bars ss) = (if bars = [] then [] else messages ss @ signal_log bars None)"
  by (simp add: trade_signals_run run_session(2))

lemma trade_signals_fst:
  "messages (fst (trade_signals bars ss)) = messages ss @ signal_log bars None"
  by (simp add: trade_signals_run run_session(2))

subsection \<open>One bar\<close>





lemma pending_broker_next [simp]: "pending (broker_next s) = None"
  by (simp add: broker_next_def split: option.splits order.splits)








subsection \<open>The position follows the relation of the spec\<close>

lemma spec_relation_Nil [simp]: "spec_relation [] = UNDEFINED"
  by (simp add: spec_relation_def)















subsection \<open>The log of a run\<close>



subsection \<open>Dates are labels\<close>



section \<open>The claims\<close>







text \<open>
  C4, as amended. A second run over the same price series, from the session state the
  first run left, appends the same entries as the first and ends in the same strategy
  state (indicators, position, pending order). The session's message list is not reset
  between runs: after the second run it is the list after the first run followed by the
  same entries again, and so are the lines written under \<^verbatim>\<open>Trade Signals\<close>.
\<close>

theorem C4_second_run:
  "signal_log bars (snd (run bars ss)) = signal_log bars ss
   \<and> fst (run bars (snd (run bars ss))) = fst (run bars ss)
   \<and> messages (snd (run bars (snd (run bars ss))))
       = messages (snd (run bars ss)) @ signal_log bars ss
   \<and> snd (trade_signals bars (fst (trade_signals bars ss)))
       = snd (trade_signals bars ss) @ signal_log bars ss"
proof -
  have a: "signal_log bars (snd (run bars ss)) = signal_log bars ss"
    using signal_log_session [of bars "snd (run bars ss)"] signal_log_session [of bars ss]
    by simp
  have b: "fst (run bars (snd (run bars ss))) = fst (run bars ss)"
    using run_session(1) [of bars "snd (run bars ss)"] run_session(1) [of bars ss] by simp
  have c: "messages (snd (run bars (snd (run bars ss))))
       = messages (snd (run bars ss)) @ signal_log bars ss"
    using run_session(2) [of bars "snd (run bars ss)"] signal_log_session [of bars ss]
    by simp
  have d: "snd (trade_signals bars (fst (trade_signals bars ss)))
       = snd (trade_signals bars ss) @ signal_log bars ss"
    using signal_log_session [of bars ss]
    by (simp add: trade_signals_snd trade_signals_fst)
  from a b c d show ?thesis by simp
qed

text \<open>
  C4 as stated fails on the closes 1, 2, ..., 30 in a fresh session: the first click
  writes one BUY line, the second click over the same series writes two.
\<close>

theorem C4_counterexample:
  "snd (trade_signals (rising 0 30) None) = [Message BUY 30 30]
   \<and> snd (trade_signals (rising 0 30) (fst (trade_signals (rising 0 30) None)))
       = [Message BUY 30 30, Message BUY 30 30]"
  by code_simp



text \<open>
  C6. For every period \<open>p \<ge> 1\<close> and all closes \<open>xs\<close> fed to a moving average of period
  \<open>p\<close>, the value is undefined while fewer than \<open>p\<close> closes were fed and is afterwards
  the arithmetic mean of the last \<open>p\<close> closes. The short and the long average of a run
  are two such instances, of the periods 15 and 30: each is in the state of an instance of
  its own fed the closes of the run.
\<close>

theorem C6_moving_average:
  assumes "1 \<le> p"
  shows "current (fold update xs (SimpleMovingAverage p))
      = (if length xs < p then None
         else Some (sum_list (drop (length xs - p) xs) / of_nat p))
    \<and> ma_short (fst (run bars ss)) = fold update (map close bars) (SimpleMovingAverage 15)
    \<and> ma_long (fst (run bars ss)) = fold update (map close bars) (SimpleMovingAverage 30)
    \<and> current (ma_short (fst (run bars ss))) = sma 15 (map close bars)
    \<and> current (ma_long (fst (run bars ss))) = sma 30 (map close bars)"
  using current_fold_update [OF assms, of xs] fold_on_bar_ma [of bars init ss]
    run_values [of bars ss]
  by (simp add: sma_def run_def init_def short_value_def long_value_def)

text \<open>
  The period 3: undefined after two closes, the mean of 1, 2, 3 after three, the mean of
  2, 3, 7 after four.
\<close>

theorem C6_witness:
  "current (fold update [1, 2] (SimpleMovingAverage 3)) = None
   \<and> current (fold update [1, 2, 3] (SimpleMovingAverage 3)) = Some 2
   \<and> current (fold update [1, 2, 3, 7] (SimpleMovingAverage 3)) = Some 4"
proof -
  have p: "1 \<le> (3::nat)" by simp
  show ?thesis
    using C6_moving_average [OF p, of "[1, 2]"] C6_moving_average [OF p, of "[1, 2, 3]"]
      C6_moving_average [OF p, of "[1, 2, 3, 7]"]
    by simp
qed








end
